theory Spec2Isabelle
  imports Main "HOL-Library.Multiset"
begin

section \<open>Python values and exceptions\<close>

text \<open>
  The values that occur in configurations, hyperparameters and resource caches:
  the literals of \<^verbatim>\<open>DEFAULT_FEATURES\<close> need integers, strings, lists and nested
  dictionaries. A dictionary keyed by strings (keyword arguments, \<^verbatim>\<open>_resources\<close>,
  \<^verbatim>\<open>features\<close>) is an association list in insertion order.
\<close>

datatype pyval =
    PyNone
  | PyInt int
  | PyStr string
  | PyList "pyval list"
  | PyDict "(pyval \<times> pyval) list"

type_synonym pydict = "(string \<times> pyval) list"

text \<open>
  Exceptions are values. \<open>CollaboratorError\<close> stands for whatever a classifier, a label
  encoder or the base class raises; the other constructors are the exceptions that the
  statements of \<^verbatim>\<open>tagger_models.py\<close> raise themselves.
\<close>

datatype error =
    IndexError
  | KeyError string
  | TypeError
  | AttributeError
  | ValueError string
  | CollaboratorError string

text \<open>\<^verbatim>\<open>xs[i]\<close> for a non-negative index: out of range raises \<^verbatim>\<open>IndexError\<close>.\<close>

definition py_index :: "'a list \<Rightarrow> nat \<Rightarrow> error + 'a" where
  "py_index xs i = (if i < length xs then Inr (xs ! i) else Inl IndexError)"

text \<open>\<^verbatim>\<open>del d[key]\<close>: a missing key raises \<^verbatim>\<open>KeyError\<close>.\<close>

definition dict_del :: "string \<Rightarrow> pydict \<Rightarrow> error + pydict" where
  "dict_del key d =
     (if key \<in> set (map fst d) then Inr (filter (\<lambda>kv. fst kv \<noteq> key) d)
      else Inl (KeyError key))"

text \<open>Truthiness of an optional dictionary: \<^verbatim>\<open>None\<close> and \<^verbatim>\<open>{}\<close> are false.\<close>

fun py_truthy :: "pydict option \<Rightarrow> bool" where
  "py_truthy None = False"
| "py_truthy (Some d) = (d \<noteq> [])"

text \<open>\<^verbatim>\<open>a or b\<close> on optional dictionaries.\<close>

definition py_or :: "pydict option \<Rightarrow> pydict option \<Rightarrow> pydict option" where
  "py_or a b = (if py_truthy a then a else b)"

subsection \<open>\<^verbatim>\<open>repr\<close> of a string\<close>

text \<open>
  The conversion \<^verbatim>\<open>{!r}\<close> of \<^verbatim>\<open>str.format\<close> applied to a string (Python 3). A \<open>char\<close>
  is read as a code point below 256. The quote is \<^verbatim>\<open>"\<close> when the string holds a
  \<^verbatim>\<open>'\<close> and no \<^verbatim>\<open>"\<close>, and \<^verbatim>\<open>'\<close> otherwise; the quote in use and the backslash are
  escaped, tab, newline and carriage return get their letters, every other
  non-printable code point becomes \<^verbatim>\<open>\xhh\<close>.
\<close>

definition squote :: char where "squote = CHR 0x27"
definition dquote :: char where "dquote = CHR 0x22"
definition backslash :: char where "backslash = CHR 0x5C"

definition hexdigit :: "nat \<Rightarrow> char" where
  "hexdigit n = ''0123456789abcdef'' ! (n mod 16)"

definition py_printable :: "char \<Rightarrow> bool" where
  "py_printable c =
     (let n = (of_char c :: nat)
      in (32 \<le> n \<and> n < 127) \<or> (161 \<le> n \<and> n \<noteq> 173))"

definition repr_char :: "char \<Rightarrow> char \<Rightarrow> string" where
  "repr_char quote c =
     (if c = quote \<or> c = backslash then [backslash, c]
      else if c = CHR 0x09 then [backslash, CHR ''t'']
      else if c = CHR 0x0A then [backslash, CHR ''n'']
      else if c = CHR 0x0D then [backslash, CHR ''r'']
      else if \<not> py_printable c
        then [backslash, CHR ''x'', hexdigit (of_char c div 16), hexdigit (of_char c mod 16)]
      else [c])"

definition py_repr :: "string \<Rightarrow> string" where
  "py_repr s =
     (let quote = (if squote \<in> set s \<and> dquote \<notin> set s then dquote else squote)
      in quote # concat (map (repr_char quote) s) @ [quote])"

section \<open>Data model\<close>

text \<open>
  An example is an opaque query. A label is the tuple of entity annotations of one
  query; this module reads only \<^verbatim>\<open>entity.entity.type\<close> of an annotation.
\<close>

type_synonym query = string

datatype entity = Entity (entity_type: string)

datatype query_entity = QueryEntity (span_text: string) (entity: entity)

type_synonym label = "query_entity list"

text \<open>
  \<^verbatim>\<open>ModelConfig\<close>: the attributes this module reads. \<^verbatim>\<open>classifier_type\<close> is documented
  as a string, so \<^verbatim>\<open>model_settings\<close> maps setting names to strings.
\<close>

record model_config =
  features :: "pydict option"
  model_settings :: "(string \<times> string) list"
  params :: "pydict option"
  param_selection :: "pydict option"
  label_type :: string

text \<open>
  The instance. \<^verbatim>\<open>_resources\<close> is held by reference: the field is the address of the
  dictionary in the heap of the \<open>world\<close> below, because \<^verbatim>\<open>__getstate__\<close> mutates that
  dictionary through a second reference. The attributes of the base class \<^verbatim>\<open>Model\<close>
  come first; \<^verbatim>\<open>TaggerModel\<close> adds \<^verbatim>\<open>_no_entities\<close> and \<^verbatim>\<open>types\<close> (absent until the
  first \<^verbatim>\<open>fit\<close>).
\<close>

record ('c, 'e) model =
  config :: model_config
  resources :: nat
  clf :: "'c option"
  label_encoder :: "'e option"
  current_params :: "pydict option"

record ('c, 'e) tagger = "('c, 'e) model" +
  no_entities :: bool
  types :: "string list option"

datatype classifier_kind = MemmModel | ConditionalRandomFields

text \<open>
  What the instance does to the outside, in order: the warnings it logs and the
  calls it makes on its collaborators.
\<close>

datatype event =
    Warning string
  | Call_constructor classifier_kind
  | Call_setup_model
  | Call_get_label_encoder
  | Call_encode "label list" "query list"
  | Call_extract_features "query list"
  | Call_fit_cv
  | Call_set_params pydict
  | Call_clf_fit
  | Call_extract_and_predict "query list"
  | Call_decode
  | Call_get_effective_config

record world =
  heap :: "nat \<Rightarrow> pydict"
  next_addr :: nat
  events :: "event list"

text \<open>
  The collaborators, which are not part of this module: the classifier classes
  (type \<open>'c\<close>), the label encoder (type \<open>'e\<close>) and the methods inherited from \<^verbatim>\<open>Model\<close>.
  Their data (features, encoded targets, groups, tag sequences) is opaque, of type \<open>'d\<close>.
  Each call either raises or returns; a method that mutates its receiver or the
  resources dictionary returns the new value of what it mutated.
\<close>

record ('c, 'e, 'd) collab =
  constructor :: "classifier_kind \<Rightarrow> error + 'c"
  setup_model :: "'c \<Rightarrow> model_config \<Rightarrow> error + 'c"
  get_label_encoder :: "model_config \<Rightarrow> error + 'e"
  encode :: "'e \<Rightarrow> label list \<Rightarrow> query list \<Rightarrow> error + 'd"
  extract_features ::
    "'c \<Rightarrow> query list \<Rightarrow> model_config \<Rightarrow> pydict \<Rightarrow> 'd \<Rightarrow> error + (('d \<times> 'd \<times> 'd) \<times> 'c \<times> pydict)"
  set_params :: "'c \<Rightarrow> pydict \<Rightarrow> error + 'c"
  clf_fit :: "'c \<Rightarrow> 'd \<Rightarrow> 'd \<Rightarrow> error + 'c"
  fit_cv :: "('c, 'e) tagger \<Rightarrow> 'd \<Rightarrow> 'd \<Rightarrow> 'd \<Rightarrow> error + ('c \<times> pydict option)"
  extract_and_predict ::
    "'c \<Rightarrow> query list \<Rightarrow> model_config \<Rightarrow> pydict \<Rightarrow> error + ('d list \<times> 'c \<times> pydict)"
  decode :: "'e \<Rightarrow> 'd list \<Rightarrow> query list \<Rightarrow> error + label list"
  get_effective_config :: "('c, 'e) tagger \<Rightarrow> error + model_config"

section \<open>Statements with effects\<close>

text \<open>
  A method body runs on the instance and the world and ends by raising or returning;
  the instance and the world it leaves behind are part of the result in both cases,
  since an exception does not undo the assignments made before it.
\<close>

type_synonym ('a, 'c, 'e) action =
  "('c, 'e) tagger \<times> world \<Rightarrow> (error + 'a) \<times> ('c, 'e) tagger \<times> world"

definition return :: "'a \<Rightarrow> ('a, 'c, 'e) action" where
  "return a s = (Inr a, s)"

definition raise :: "error \<Rightarrow> ('a, 'c, 'e) action" where
  "raise e s = (Inl e, s)"

definition and_then ::
  "('a, 'c, 'e) action \<Rightarrow> ('a \<Rightarrow> ('b, 'c, 'e) action) \<Rightarrow> ('b, 'c, 'e) action" where
  "and_then f g s = (case f s of (Inl e, s') \<Rightarrow> (Inl e, s') | (Inr a, s') \<Rightarrow> g a s')"

definition lift :: "error + 'a \<Rightarrow> ('a, 'c, 'e) action" where
  "lift r s = (r, s)"

definition assign :: "(('c, 'e) tagger \<Rightarrow> ('c, 'e) tagger) \<Rightarrow> (unit, 'c, 'e) action" where
  "assign f s = (Inr (), f (fst s), snd s)"

definition emit :: "event \<Rightarrow> (unit, 'c, 'e) action" where
  "emit ev s = (Inr (), fst s, (snd s)\<lparr>events := events (snd s) @ [ev]\<rparr>)"

text \<open>A call on a collaborator: the call is recorded, then its outcome is delivered.\<close>

definition call :: "event \<Rightarrow> error + 'a \<Rightarrow> ('a, 'c, 'e) action" where
  "call ev r = and_then (emit ev) (\<lambda>_. lift r)"

section \<open>Construction\<close>

definition CRF_TYPE :: string where "CRF_TYPE = ''crf''"
definition MEMM_TYPE :: string where "MEMM_TYPE = ''memm''"

definition DEFAULT_FEATURES :: pydict where
  "DEFAULT_FEATURES =
     [(''bag-of-words-seq'',
         PyDict [(PyStr ''ngram_lengths_to_start_positions'',
                  PyDict [(PyInt 1, PyList [PyInt (- 2), PyInt (- 1), PyInt 0, PyInt 1, PyInt 2]),
                          (PyInt 2, PyList [PyInt (- 2), PyInt (- 1), PyInt 0, PyInt 1])])]),
      (''in-gaz-span-seq'', PyDict []),
      (''sys-candidates-seq'',
         PyDict [(PyStr ''start_positions'', PyList [PyInt (- 1), PyInt 0, PyInt 1])])]"

text \<open>
  Modelled from the spec: \<^verbatim>\<open>Model.__init__\<close>, \<^verbatim>\<open>ModelConfig.to_dict\<close> and the
  \<^verbatim>\<open>ModelConfig\<close> constructor are not in the source tree. Following the data model of
  the specification, the base initialiser stores the configuration, gives the instance
  a resources dictionary of its own (a fresh address), and leaves the classifier, the
  label encoder and the current parameters unset until \<^verbatim>\<open>fit\<close>;
  \<^verbatim>\<open>ModelConfig(**config_dict)\<close> rebuilds a configuration from its dictionary, so
  replacing one entry of the dictionary is a field update.
\<close>

definition Model_init :: "model_config \<Rightarrow> world \<Rightarrow> ('c, 'e) model \<times> world" where
  "Model_init cfg w =
     (\<lparr>config = cfg, resources = next_addr w, clf = None, label_encoder = None,
       current_params = None\<rparr>,
      w\<lparr>heap := (heap w)(next_addr w := []), next_addr := Suc (next_addr w)\<rparr>)"

text \<open>\<^verbatim>\<open>TaggerModel.__init__\<close>\<close>

definition TaggerModel_init :: "model_config \<Rightarrow> world \<Rightarrow> ('c, 'e) tagger \<times> world" where
  "TaggerModel_init cfg0 w =
     (let cfg = (if \<not> py_truthy (features cfg0)
                 then cfg0\<lparr>features := Some DEFAULT_FEATURES\<rparr>
                 else cfg0);
          (base, w') = Model_init cfg w
      in (\<lparr>config = config base, resources = resources base, clf = clf base,
           label_encoder = label_encoder base, current_params = current_params base,
           no_entities = False, types = None\<rparr>, w'))"

section \<open>Serialization\<close>

definition resources_to_persist :: "string list" where
  "resources_to_persist = [''sys_types'']"

text \<open>
  The loop of \<^verbatim>\<open>__getstate__\<close> over the keys listed before it starts. It works on the
  dictionary that \<^verbatim>\<open>attributes['_resources']\<close> refers to; the result carries the
  dictionary as the loop left it, also when a deletion raised.
\<close>

primrec drop_resources :: "string list \<Rightarrow> pydict \<Rightarrow> (error + unit) \<times> pydict" where
  "drop_resources [] d = (Inr (), d)"
| "drop_resources (key # keys) d =
     (if key \<notin> set resources_to_persist
      then (case dict_del key d of
              Inl e \<Rightarrow> (Inl e, d)
            | Inr d' \<Rightarrow> drop_resources keys d')
      else drop_resources keys d)"

text \<open>
  \<^verbatim>\<open>TaggerModel.__getstate__\<close>. \<^verbatim>\<open>self.__dict__.copy()\<close> is a shallow copy: the copy
  has the attribute values of the instance, and its \<^verbatim>\<open>_resources\<close> is the same address.
  The deletions are therefore writes to the one dictionary at that address.
\<close>

definition getstate :: "(('c, 'e) tagger, 'c, 'e) action" where
  "getstate s =
     (let self = fst s; w = snd s;
          attributes = self;
          a = resources attributes;
          (r, d') = drop_resources (map fst (heap w a)) (heap w a);
          w' = w\<lparr>heap := (heap w)(a := d')\<rparr>
      in case r of
           Inl e \<Rightarrow> (Inl e, self, w')
         | Inr _ \<Rightarrow> (Inr attributes, self, w'))"

section \<open>Classifier selection\<close>

definition CLASS_NAME :: string where "CLASS_NAME = ''TaggerModel''"

text \<open>
  \<^verbatim>\<open>TaggerModel._get_model_constructor\<close>. The subscript of \<^verbatim>\<open>model_settings\<close> is outside
  the \<^verbatim>\<open>try\<close>, so a missing key is a \<^verbatim>\<open>KeyError\<close>; the failed lookup in the table of
  constructors is turned into the \<^verbatim>\<open>ValueError\<close>.
\<close>

definition get_model_constructor :: "('c, 'e) tagger \<Rightarrow> error + classifier_kind" where
  "get_model_constructor self =
     (case map_of (model_settings (config self)) ''classifier_type'' of
        None \<Rightarrow> Inl (KeyError ''classifier_type'')
      | Some classifier_type \<Rightarrow>
          (case map_of [(MEMM_TYPE, MemmModel), (CRF_TYPE, ConditionalRandomFields)]
                  classifier_type of
             Some k \<Rightarrow> Inr k
           | None \<Rightarrow>
               Inl (ValueError (CLASS_NAME @ '': Classifier type '' @ py_repr classifier_type
                                @ '' not recognized''))))"

section \<open>Training\<close>

text \<open>
  The comprehension \<^verbatim>\<open>[xs[i] for i in indices]\<close>: the first index out of range ends
  it with \<^verbatim>\<open>IndexError\<close>.
\<close>

primrec reorder :: "'a list \<Rightarrow> nat list \<Rightarrow> error + 'a list" where
  "reorder xs [] = Inr []"
| "reorder xs (i # js) =
     (case py_index xs i of
        Inl e \<Rightarrow> Inl e
      | Inr x \<Rightarrow> (case reorder xs js of Inl e \<Rightarrow> Inl e | Inr ys \<Rightarrow> Inr (x # ys)))"

text \<open>\<^verbatim>\<open>[entity.entity.type for label in labels for entity in label]\<close>\<close>

definition entity_types :: "label list \<Rightarrow> string list" where
  "entity_types labels = concat (map (map (\<lambda>qe. entity_type (entity qe))) labels)"

text \<open>
  \<^verbatim>\<open>TaggerModel._fit\<close>: \<^verbatim>\<open>self._clf.set_params(**params)\<close>, which cannot unpack
  \<^verbatim>\<open>None\<close>, then \<^verbatim>\<open>self._clf.fit(X, y)\<close>, whose result is returned.
\<close>

definition private_fit ::
  "('c, 'e, 'd) collab \<Rightarrow> 'd \<Rightarrow> 'd \<Rightarrow> pydict option \<Rightarrow> ('c, 'c, 'e) action" where
  "private_fit col X y params' s =
     (case clf (fst s) of
        None \<Rightarrow> raise AttributeError s
      | Some c \<Rightarrow>
          (case params' of
             None \<Rightarrow> raise TypeError s
           | Some kwargs \<Rightarrow>
               and_then (call (Call_set_params kwargs) (set_params col c kwargs)) (\<lambda>c'.
               and_then (assign (\<lambda>m. m\<lparr>clf := Some c'\<rparr>)) (\<lambda>_.
               call Call_clf_fit (clf_fit col c' X y))) s))"

text \<open>
  \<^verbatim>\<open>self._clf.extract_features(examples, self.config, self._resources, y=y, fit=True)\<close>:
  the classifier and the resources dictionary it was handed may both have changed.
\<close>

definition store_resources :: "pydict \<Rightarrow> (unit, 'c, 'e) action" where
  "store_resources d s =
     (Inr (), fst s, (snd s)\<lparr>heap := (heap (snd s))(resources (fst s) := d)\<rparr>)"

definition run_extract_features ::
  "('c, 'e, 'd) collab \<Rightarrow> query list \<Rightarrow> 'd \<Rightarrow> ('d \<times> 'd \<times> 'd, 'c, 'e) action" where
  "run_extract_features col examples y s =
     (case clf (fst s) of
        None \<Rightarrow> raise AttributeError s
      | Some c \<Rightarrow>
          and_then (call (Call_extract_features examples)
                      (extract_features col c examples (config (fst s))
                         (heap (snd s) (resources (fst s))) y)) (\<lambda>(Xyg, c', d').
          and_then (assign (\<lambda>m. m\<lparr>clf := Some c'\<rparr>)) (\<lambda>_.
          and_then (store_resources d') (\<lambda>_.
          return Xyg))) s)"

text \<open>Lines 132 to 139 of \<^verbatim>\<open>fit\<close>: fit directly, or search and fit with the best.\<close>

definition train ::
  "('c, 'e, 'd) collab \<Rightarrow> bool \<Rightarrow> pydict option \<Rightarrow> 'd \<times> 'd \<times> 'd \<Rightarrow> (unit, 'c, 'e) action" where
  "train col skip_param_selection params' Xyg =
     (case Xyg of (X, y, groups) \<Rightarrow>
        if skip_param_selection then
          and_then (private_fit col X y params') (\<lambda>fitted.
          and_then (assign (\<lambda>m. m\<lparr>clf := Some fitted\<rparr>)) (\<lambda>_.
          assign (\<lambda>m. m\<lparr>current_params := params'\<rparr>)))
        else
          and_then (\<lambda>s. call Call_fit_cv (fit_cv col (fst s) X y groups) s) (\<lambda>(_, best_params).
          and_then (private_fit col X y best_params) (\<lambda>fitted.
          and_then (assign (\<lambda>m. m\<lparr>clf := Some fitted\<rparr>)) (\<lambda>_.
          assign (\<lambda>m. m\<lparr>current_params := best_params\<rparr>)))))"

text \<open>Lines 119 to 141 of \<^verbatim>\<open>fit\<close>: what runs when an entity type is present.\<close>

definition fit_entities ::
  "('c, 'e, 'd) collab \<Rightarrow> bool \<Rightarrow> pydict option \<Rightarrow> query list \<Rightarrow> label list \<Rightarrow>
     (unit, 'c, 'e) action" where
  "fit_entities col skip_param_selection params' examples labels =
     and_then (\<lambda>s. lift (get_model_constructor (fst s)) s) (\<lambda>kind.
     and_then (call (Call_constructor kind) (constructor col kind)) (\<lambda>c.
     and_then (assign (\<lambda>m. m\<lparr>clf := Some c\<rparr>)) (\<lambda>_.
     and_then (\<lambda>s. call Call_setup_model (setup_model col c (config (fst s))) s) (\<lambda>c'.
     and_then (assign (\<lambda>m. m\<lparr>clf := Some c'\<rparr>)) (\<lambda>_.
     and_then (\<lambda>s. call Call_get_label_encoder (get_label_encoder col (config (fst s))) s) (\<lambda>enc.
     and_then (assign (\<lambda>m. m\<lparr>label_encoder := Some enc\<rparr>)) (\<lambda>_.
     and_then (call (Call_encode labels examples) (encode col enc labels examples)) (\<lambda>y.
     and_then (run_extract_features col examples y) (\<lambda>Xyg.
     train col skip_param_selection params' Xyg)))))))))"

definition NO_LABELS_FIT :: string where
  "NO_LABELS_FIT = ''There are no labels in this label set, so we don't fit the model.''"

text \<open>
  \<^verbatim>\<open>TaggerModel.fit\<close>. \<open>indices\<close> is the list \<^verbatim>\<open>list(range(len(labels)))\<close> as
  \<^verbatim>\<open>random.shuffle\<close> left it, so a run of the method corresponds to a permutation of
  \<open>[0..<length labels0]\<close>. The result \<open>Inr ()\<close> is \<^verbatim>\<open>return self\<close>: the instance
  returned is the instance in the resulting state.
\<close>

definition fit ::
  "('c, 'e, 'd) collab \<Rightarrow> nat list \<Rightarrow> query list \<Rightarrow> label list \<Rightarrow> pydict option \<Rightarrow>
     (unit, 'c, 'e) action" where
  "fit col indices examples0 labels0 given_params s =
     (let skip_param_selection =
            (given_params \<noteq> None \<or> param_selection (config (fst s)) = None);
          params' = py_or given_params (params (config (fst s)))
      in and_then (lift (reorder examples0 indices)) (\<lambda>examples.
         and_then (lift (reorder labels0 indices)) (\<lambda>labels.
         and_then (assign (\<lambda>m. m\<lparr>types := Some (entity_types labels)\<rparr>)) (\<lambda>_.
         if length (remdups (entity_types labels)) = 0 then
           and_then (assign (\<lambda>m. m\<lparr>no_entities := True\<rparr>)) (\<lambda>_.
           emit (Warning NO_LABELS_FIT))
         else fit_entities col skip_param_selection params' examples labels))) s)"

subsection \<open>The shuffle of the standard library\<close>

text \<open>
  \<^verbatim>\<open>random.shuffle(x)\<close> of the Python standard library is the loop
  \<^verbatim>\<open>for i in reversed(range(1, len(x))): j = randbelow(i + 1); x[i], x[j] = x[j], x[i]\<close>.
  \<open>fisher_yates i draws x\<close> runs it from index \<open>i\<close> down to 1 on the numbers the
  generator draws, in the order it draws them; \<open>valid_draws i draws\<close> says that there
  is one draw for each round and that each is in the range \<^verbatim>\<open>randbelow\<close> promises.
  The list \<open>indices\<close> of \<open>fit\<close> is \<open>random_shuffle draws [0..<length labels]\<close>.
\<close>

fun fisher_yates :: "nat \<Rightarrow> nat list \<Rightarrow> 'a list \<Rightarrow> 'a list" where
  "fisher_yates (Suc i) (j # draws) x =
     fisher_yates i draws (x[Suc i := x ! j, j := x ! Suc i])"
| "fisher_yates i draws x = x"

definition random_shuffle :: "nat list \<Rightarrow> 'a list \<Rightarrow> 'a list" where
  "random_shuffle draws x = fisher_yates (length x - 1) draws x"

fun valid_draws :: "nat \<Rightarrow> nat list \<Rightarrow> bool" where
  "valid_draws 0 draws = (draws = [])"
| "valid_draws (Suc i) [] = False"
| "valid_draws (Suc i) (j # draws) = (j \<le> Suc i \<and> valid_draws i draws)"

section \<open>Prediction and evaluation\<close>

text \<open>
  The comprehension of \<^verbatim>\<open>predict\<close> over \<^verbatim>\<open>zip(predicted_tags, examples)\<close>: each step
  reads \<^verbatim>\<open>self._label_encoder\<close>, decodes one tag sequence and takes element 0.
\<close>

definition decode_one :: "('c, 'e, 'd) collab \<Rightarrow> 'd \<times> query \<Rightarrow> (label, 'c, 'e) action" where
  "decode_one col p s =
     (case label_encoder (fst s) of
        None \<Rightarrow> raise AttributeError s
      | Some enc \<Rightarrow>
          and_then (call Call_decode (decode col enc [fst p] [snd p])) (\<lambda>decoded.
          lift (py_index decoded 0)) s)"

primrec decode_all ::
  "('c, 'e, 'd) collab \<Rightarrow> ('d \<times> query) list \<Rightarrow> (label list, 'c, 'e) action" where
  "decode_all col [] = return []"
| "decode_all col (p # ps) =
     and_then (decode_one col p) (\<lambda>l.
     and_then (decode_all col ps) (\<lambda>ls.
     return (l # ls)))"

text \<open>\<^verbatim>\<open>TaggerModel.predict\<close>; the one-element list \<^verbatim>\<open>[()]\<close> is \<open>[[]]\<close>.\<close>

definition predict :: "('c, 'e, 'd) collab \<Rightarrow> query list \<Rightarrow> (label list, 'c, 'e) action" where
  "predict col examples s =
     (if no_entities (fst s) then return [[]] s
      else (case clf (fst s) of
              None \<Rightarrow> raise AttributeError s
            | Some c \<Rightarrow>
                and_then (call (Call_extract_and_predict examples)
                            (extract_and_predict col c examples (config (fst s))
                               (heap (snd s) (resources (fst s))))) (\<lambda>(predicted_tags, c', d').
                and_then (assign (\<lambda>m. m\<lparr>clf := Some c'\<rparr>)) (\<lambda>_.
                and_then (store_resources d') (\<lambda>_.
                decode_all col (zip predicted_tags examples)))) s))"

datatype evaluated_example =
  EvaluatedExample (example: query) (expected: label) (predicted: label)
    (probas: pyval) (example_label_type: string)

datatype model_evaluation = EntityModelEvaluation model_config "evaluated_example list"

text \<open>The comprehension of \<^verbatim>\<open>evaluate\<close> over \<^verbatim>\<open>enumerate(examples)\<close>.\<close>

primrec evaluations ::
  "label list \<Rightarrow> label list \<Rightarrow> string \<Rightarrow> (nat \<times> query) list \<Rightarrow> error + evaluated_example list" where
  "evaluations labels predictions lt [] = Inr []"
| "evaluations labels predictions lt (p # ps) =
     (case py_index labels (fst p) of
        Inl e \<Rightarrow> Inl e
      | Inr l \<Rightarrow>
          (case py_index predictions (fst p) of
             Inl e \<Rightarrow> Inl e
           | Inr q \<Rightarrow>
               (case evaluations labels predictions lt ps of
                  Inl e \<Rightarrow> Inl e
                | Inr evs \<Rightarrow> Inr (EvaluatedExample (snd p) l q PyNone lt # evs))))"

definition NO_LABELS_EVALUATE :: string where
  "NO_LABELS_EVALUATE =
     ''There are no labels in this label set, so we don't run model evaluation.''"

text \<open>\<^verbatim>\<open>TaggerModel.evaluate\<close>; the bare \<^verbatim>\<open>return\<close> is \<open>None\<close>.\<close>

definition evaluate ::
  "('c, 'e, 'd) collab \<Rightarrow> query list \<Rightarrow> label list \<Rightarrow> (model_evaluation option, 'c, 'e) action" where
  "evaluate col examples labels s =
     (if no_entities (fst s) then
        and_then (emit (Warning NO_LABELS_EVALUATE)) (\<lambda>_. return None) s
      else
        and_then (predict col examples) (\<lambda>predictions.
        and_then (\<lambda>s'. lift (evaluations labels predictions (label_type (config (fst s')))
                              (List.enumerate 0 examples)) s') (\<lambda>evs.
        and_then (\<lambda>s'. call Call_get_effective_config (get_effective_config col (fst s')) s') (\<lambda>cfg.
        return (Some (EntityModelEvaluation cfg evs))))) s)"

section \<open>Collaborators and inputs for concrete runs\<close>

text \<open>
  A set of collaborators that can be run: the classifier is its kind, the encoded
  targets are the number of labels, a tag sequence is the length of its query. The
  encoder and the feature extractor refuse lists of different lengths, the search
  returns one fixed set of parameters.
\<close>

definition stub_collab :: "(classifier_kind, unit, nat) collab" where
  "stub_collab =
     \<lparr>constructor = (\<lambda>kind. Inr kind),
      setup_model = (\<lambda>c cfg. Inr c),
      get_label_encoder = (\<lambda>cfg. Inr ()),
      encode = (\<lambda>enc labels examples.
                  if length labels = length examples then Inr (length labels)
                  else Inl (CollaboratorError ''length mismatch'')),
      extract_features = (\<lambda>c examples cfg d y.
                  if length examples = y then Inr ((y, y, y), c, d)
                  else Inl (CollaboratorError ''length mismatch'')),
      set_params = (\<lambda>c kwargs. Inr c),
      clf_fit = (\<lambda>c X y. Inr c),
      fit_cv = (\<lambda>self X y groups.
                  case clf self of
                    None \<Rightarrow> Inl AttributeError
                  | Some c \<Rightarrow> Inr (c, Some [(''C'', PyInt 1)])),
      extract_and_predict = (\<lambda>c examples cfg d. Inr (map length examples, c, d)),
      decode = (\<lambda>enc tags examples. Inr (map (\<lambda>q. [QueryEntity q (Entity ''X'')]) examples)),
      get_effective_config = (\<lambda>self. Inr (config self))\<rparr>"

definition empty_world :: world where
  "empty_world = \<lparr>heap = (\<lambda>_. []), next_addr = 0, events = []\<rparr>"

definition memm_config :: model_config where
  "memm_config =
     \<lparr>features = Some [], model_settings = [(''classifier_type'', ''memm'')],
      params = Some [(''C'', PyInt 5)], param_selection = None, label_type = ''entities''\<rparr>"

definition search_config :: model_config where
  "search_config = memm_config\<lparr>param_selection := Some [(''type'', PyStr ''k-fold'')]\<rparr>"

definition unknown_config :: model_config where
  "unknown_config = memm_config\<lparr>model_settings := [(''classifier_type'', ''nonexistent'')]\<rparr>"

definition entity_X :: query_entity where
  "entity_X = QueryEntity ''springfield'' (Entity ''X'')"

text \<open>A fresh instance, and the instance after a \<^verbatim>\<open>fit\<close> on one query without entities.\<close>

definition fresh_state :: "model_config \<Rightarrow> (classifier_kind, unit) tagger \<times> world" where
  "fresh_state cfg = TaggerModel_init cfg empty_world"

definition degenerate_state :: "(classifier_kind, unit) tagger \<times> world" where
  "degenerate_state = snd (fit stub_collab [0] [''hello''] [[]] None (fresh_state memm_config))"

text \<open>The events a run added to the world.\<close>

definition new_events :: "world \<Rightarrow> world \<Rightarrow> event list" where
  "new_events w w' = drop (length (events w)) (events w')"

text \<open>An instance whose resource cache holds three entries.\<close>

definition cached_resources :: pydict where
  "cached_resources =
     [(''gazetteers'', PyDict [(PyStr ''city'', PyList [PyStr ''springfield''])]),
      (''sys_types'', PyList [PyStr ''sys_time'']),
      (''word_freqs'', PyDict [(PyStr ''hello'', PyInt 3)])]"

definition cached_state :: "(classifier_kind, unit) tagger \<times> world" where
  "cached_state =
     (fst (fresh_state memm_config),
      (snd (fresh_state memm_config))
        \<lparr>heap := (heap (snd (fresh_state memm_config)))
                   (resources (fst (fresh_state memm_config)) := cached_resources)\<rparr>)"

text \<open>
  The events that lines 119 to 141 of \<^verbatim>\<open>fit\<close> can add when they run on the lists
  \<open>ex\<close> and \<open>lb\<close>, and what these lines leave alone.
\<close>

fun fit_event :: "query list \<Rightarrow> label list \<Rightarrow> event \<Rightarrow> bool" where
  "fit_event ex lb (Call_encode lb' ex') = (lb' = lb \<and> ex' = ex)"
| "fit_event ex lb (Call_extract_features ex') = (ex' = ex)"
| "fit_event ex lb (Warning msg) = False"
| "fit_event ex lb (Call_extract_and_predict ex') = False"
| "fit_event ex lb Call_decode = False"
| "fit_event ex lb Call_get_effective_config = False"
| "fit_event ex lb ev = True"

definition fit_frame ::
  "query list \<Rightarrow> label list \<Rightarrow> ('c, 'e) tagger \<times> world \<Rightarrow> ('c, 'e) tagger \<times> world \<Rightarrow> bool" where
  "fit_frame ex lb s s' \<longleftrightarrow>
     config (fst s') = config (fst s) \<and> resources (fst s') = resources (fst s) \<and>
     no_entities (fst s') = no_entities (fst s) \<and> types (fst s') = types (fst s) \<and>
     (\<exists>evs. events (snd s') = events (snd s) @ evs \<and> list_all (fit_event ex lb) evs)"

section \<open>Running the statements\<close>

lemma call_run: "call ev r s = (r, fst s, (snd s)\<lparr>events := events (snd s) @ [ev]\<rparr>)"
  by (cases r) (simp_all add: call_def and_then_def emit_def lift_def)

lemmas run_simps = return_def raise_def lift_def assign_def emit_def call_run store_resources_def

lemma fresh_state_memm:
  "fresh_state memm_config =
     (\<lparr>config = memm_config\<lparr>features := Some DEFAULT_FEATURES\<rparr>, resources = 0, clf = None,
       label_encoder = None, current_params = None, no_entities = False, types = None\<rparr>,
      \<lparr>heap = (\<lambda>_. []), next_addr = Suc 0, events = []\<rparr>)"
  by (simp add: fresh_state_def TaggerModel_init_def Model_init_def memm_config_def
      empty_world_def fun_eq_iff)

lemma fresh_state_unknown:
  "fresh_state unknown_config =
     (\<lparr>config = unknown_config\<lparr>features := Some DEFAULT_FEATURES\<rparr>, resources = 0, clf = None,
       label_encoder = None, current_params = None, no_entities = False, types = None\<rparr>,
      \<lparr>heap = (\<lambda>_. []), next_addr = Suc 0, events = []\<rparr>)"
  by (simp add: fresh_state_def TaggerModel_init_def Model_init_def unknown_config_def
      memm_config_def empty_world_def fun_eq_iff)

lemma fresh_state_search:
  "fresh_state search_config =
     (\<lparr>config = search_config\<lparr>features := Some DEFAULT_FEATURES\<rparr>, resources = 0, clf = None,
       label_encoder = None, current_params = None, no_entities = False, types = None\<rparr>,
      \<lparr>heap = (\<lambda>_. []), next_addr = Suc 0, events = []\<rparr>)"
  by (simp add: fresh_state_def TaggerModel_init_def Model_init_def search_config_def
      memm_config_def empty_world_def fun_eq_iff)

lemma degenerate_state_eq:
  "degenerate_state =
     (\<lparr>config = memm_config\<lparr>features := Some DEFAULT_FEATURES\<rparr>, resources = 0, clf = None,
       label_encoder = None, current_params = None, no_entities = True, types = Some []\<rparr>,
      \<lparr>heap = (\<lambda>_. []), next_addr = Suc 0, events = [Warning NO_LABELS_FIT]\<rparr>)"
  by (simp add: degenerate_state_def fresh_state_memm fit_def and_then_def run_simps
      py_index_def entity_types_def Let_def)

lemma cached_state_eq:
  "cached_state =
     (\<lparr>config = memm_config\<lparr>features := Some DEFAULT_FEATURES\<rparr>, resources = 0, clf = None,
       label_encoder = None, current_params = None, no_entities = False, types = None\<rparr>,
      \<lparr>heap = (\<lambda>_. [])(0 := cached_resources), next_addr = Suc 0, events = []\<rparr>)"
  by (simp add: cached_state_def fresh_state_memm)

section \<open>The shuffle and the branches of fit\<close>

lemma reorder_Inr:
  "\<forall>i\<in>set js. i < length xs \<Longrightarrow> reorder xs js = Inr (map ((!) xs) js)"
  by (induction js) (simp_all add: py_index_def)


lemma fit_entities_frame:
  "fit_frame ex lb s (snd (fit_entities col skip p ex lb s))"
  unfolding fit_frame_def
  by (cases s)
     (auto simp: fit_entities_def train_def private_fit_def run_extract_features_def
        and_then_def run_simps
        split: sum.splits prod.splits option.splits)

lemma fit_cases:
  "fit col indices examples labels given_params s =
     (case reorder examples indices of
        Inl e \<Rightarrow> (Inl e, s)
      | Inr ex' \<Rightarrow>
          (case reorder labels indices of
             Inl e \<Rightarrow> (Inl e, s)
           | Inr lb' \<Rightarrow>
               if entity_types lb' = []
               then (Inr (), (fst s)\<lparr>types := Some [], no_entities := True\<rparr>,
                     (snd s)\<lparr>events := events (snd s) @ [Warning NO_LABELS_FIT]\<rparr>)
               else fit_entities col
                      (given_params \<noteq> None \<or> param_selection (config (fst s)) = None)
                      (py_or given_params (params (config (fst s)))) ex' lb'
                      ((fst s)\<lparr>types := Some (entity_types lb')\<rparr>, snd s)))"
  by (cases s) (simp add: fit_def Let_def and_then_def run_simps split: sum.splits)

lemmas fit_run_simps =
  fit_cases fit_entities_def train_def private_fit_def run_extract_features_def
  get_model_constructor_def and_then_def run_simps py_index_def entity_types_def py_or_def
  stub_collab_def entity_X_def MEMM_TYPE_def CRF_TYPE_def

lemma perm_indices_bound: "mset js = mset [0..<n] \<Longrightarrow> i \<in> set js \<Longrightarrow> i < n"
  using mset_eq_setD [of js "[0..<n]"] by auto


lemma perm_map_nth:
  assumes "mset js = mset [0..<length xs]"
  shows "mset (map ((!) xs) js) = mset xs"
proof -
  have "mset (map ((!) xs) js) = image_mset ((!) xs) (mset js)" by simp
  also have "\<dots> = image_mset ((!) xs) (mset [0..<length xs])" using assms by simp
  also have "\<dots> = mset (map ((!) xs) [0..<length xs])" by simp
  also have "\<dots> = mset xs" by (simp only: map_nth)
  finally show ?thesis .
qed


lemma zip_map_nth:
  "\<forall>i\<in>set js. i < length xs \<and> i < length ys \<Longrightarrow>
   zip (map ((!) xs) js) (map ((!) ys) js) = map ((!) (zip xs ys)) js"
  by (induction js) auto

lemma perm_zip_nth:
  assumes "mset js = mset [0..<length ys]" "length ys \<le> length xs"
  shows "mset (zip (map ((!) xs) js) (map ((!) ys) js)) = mset (zip xs ys)"
proof -
  have bound: "\<forall>i\<in>set js. i < length xs \<and> i < length ys"
    using perm_indices_bound [OF assms(1)] assms(2) by fastforce
  have len: "length (zip xs ys) = length ys"
    using assms(2) by simp
  have "mset (map ((!) (zip xs ys)) js) = mset (zip xs ys)"
    by (rule perm_map_nth) (simp only: len assms(1))
  then show ?thesis by (simp only: zip_map_nth [OF bound])
qed

lemma entity_types_empty_iff:
  "entity_types labels = [] \<longleftrightarrow> (\<Union>l\<in>set labels. (\<lambda>qe. entity_type (entity qe)) ` set l) = {}"
  by (auto simp: entity_types_def)

lemma entity_types_perm:
  assumes "mset lb' = mset lb"
  shows "entity_types lb' = [] \<longleftrightarrow> entity_types lb = []"
  using mset_eq_setD [OF assms] by (simp add: entity_types_empty_iff)

lemma fit_new_events:
  assumes "reorder examples indices = Inr ex'" "reorder labels indices = Inr lb'"
  shows "\<forall>ev\<in>set (new_events w (snd (snd (fit col indices examples labels given_params (self, w))))).
           (\<forall>lb ex. ev = Call_encode lb ex \<longrightarrow> lb = lb' \<and> ex = ex') \<and>
           (\<forall>ex. ev = Call_extract_features ex \<longrightarrow> ex = ex')"
proof (cases "entity_types lb' = []")
  case True
  then show ?thesis using assms by (simp add: fit_cases new_events_def)
next
  case False
  let ?s1 = "(self\<lparr>types := Some (entity_types lb')\<rparr>, w)"
  let ?skip = "given_params \<noteq> None \<or> param_selection (config self) = None"
  let ?p = "py_or given_params (params (config self))"
  have run: "fit col indices examples labels given_params (self, w) = fit_entities col ?skip ?p ex' lb' ?s1"
    using False assms by (simp add: fit_cases)
  obtain evs where evs: "events (snd (snd (fit_entities col ?skip ?p ex' lb' ?s1))) = events w @ evs"
      "list_all (fit_event ex' lb') evs"
    using fit_entities_frame [of ex' lb' ?s1 col ?skip ?p] by (auto simp: fit_frame_def)
  have "\<forall>ev\<in>set evs. (\<forall>lb ex. ev = Call_encode lb ex \<longrightarrow> lb = lb' \<and> ex = ex') \<and>
           (\<forall>ex. ev = Call_extract_features ex \<longrightarrow> ex = ex')"
    using evs(2) by (auto simp: list_all_iff)
  then show ?thesis unfolding run new_events_def evs(1) by simp
qed

lemma reorder_eq_Inr: "reorder xs js = Inr ys \<Longrightarrow> ys = map ((!) xs) js"
  by (induction js arbitrary: ys) (auto simp: py_index_def split: sum.splits if_splits)

lemma fit_entities_prefix:
  assumes "get_model_constructor self = Inr kind" "constructor col kind = Inr c0"
    and "setup_model col c0 (config self) = Inr c1"
    and "get_label_encoder col (config self) = Inr enc"
  shows "fit_entities col skip p ex lb (self, w) =
     (case encode col enc lb ex of
        Inl e \<Rightarrow>
          (Inl e, self\<lparr>clf := Some c1, label_encoder := Some enc\<rparr>,
           w\<lparr>events := events w @ [Call_constructor kind, Call_setup_model,
                   Call_get_label_encoder, Call_encode lb ex]\<rparr>)
      | Inr y0 \<Rightarrow>
          (case extract_features col c1 ex (config self) (heap w (resources self)) y0 of
             Inl e \<Rightarrow>
               (Inl e, self\<lparr>clf := Some c1, label_encoder := Some enc\<rparr>,
                w\<lparr>events := events w @ [Call_constructor kind, Call_setup_model,
                        Call_get_label_encoder, Call_encode lb ex, Call_extract_features ex]\<rparr>)
           | Inr (Xyg, c2, d') \<Rightarrow>
               train col skip p Xyg
                 (self\<lparr>label_encoder := Some enc, clf := Some c2\<rparr>,
                  w\<lparr>events := events w @ [Call_constructor kind, Call_setup_model,
                        Call_get_label_encoder, Call_encode lb ex, Call_extract_features ex],
                    heap := (heap w)(resources self := d')\<rparr>)))"
  using assms
  by (simp add: fit_entities_def run_extract_features_def and_then_def run_simps
      split: sum.splits prod.splits)

lemma fit_entities_success:
  assumes "fit_entities col skip p ex lb (self, w) = (Inr (), self', w')"
  shows "(if skip then current_params self' = p \<and> Call_fit_cv \<notin> set (new_events w w')
          else Call_fit_cv \<in> set (new_events w w') \<and>
               (\<exists>kind c0 c1 enc y0 X y g c2 d' est.
                  get_model_constructor self = Inr kind \<and> constructor col kind = Inr c0 \<and>
                  setup_model col c0 (config self) = Inr c1 \<and>
                  get_label_encoder col (config self) = Inr enc \<and>
                  encode col enc lb ex = Inr y0 \<and>
                  extract_features col c1 ex (config self) (heap w (resources self)) y0
                    = Inr ((X, y, g), c2, d') \<and>
                  fit_cv col (self\<lparr>label_encoder := Some enc, clf := Some c2\<rparr>) X y g
                    = Inr (est, current_params self'))) \<and>
         (\<exists>kwargs. current_params self' = Some kwargs \<and>
                    Call_set_params kwargs \<in> set (new_events w w'))"
  using assms
  by (auto simp: fit_entities_def train_def private_fit_def run_extract_features_def
        and_then_def run_simps new_events_def
        split: sum.splits prod.splits option.splits if_splits)


lemma fit_keeps_flag:
  "no_entities (fst s) \<Longrightarrow> no_entities (fst (snd (fit col indices examples labels given_params s)))"
proof -
  assume f: "no_entities (fst s)"
  show ?thesis
  proof (cases "reorder examples indices")
    case (Inl e)
    then show ?thesis using f by (simp add: fit_cases)
  next
    case ex: (Inr ex')
    show ?thesis
    proof (cases "reorder labels indices")
      case (Inl e)
      then show ?thesis using f ex by (simp add: fit_cases)
    next
      case lb: (Inr lb')
      show ?thesis
      proof (cases "entity_types lb' = []")
        case True
        then show ?thesis using ex lb by (simp add: fit_cases)
      next
        case False
        let ?s1 = "((fst s)\<lparr>types := Some (entity_types lb')\<rparr>, snd s)"
        have "fit_frame ex' lb' ?s1
                (snd (fit_entities col
                        (given_params \<noteq> None \<or> param_selection (config (fst s)) = None)
                        (py_or given_params (params (config (fst s)))) ex' lb' ?s1))"
          by (rule fit_entities_frame)
        then show ?thesis using f False ex lb by (simp add: fit_cases fit_frame_def)
      qed
    qed
  qed
qed

subsection \<open>The shuffle reaches every permutation once\<close>

lemma fisher_yates_mset:
  "valid_draws i draws \<Longrightarrow> i < length x \<or> i = 0 \<Longrightarrow> mset (fisher_yates i draws x) = mset x"
proof (induction i draws x rule: fisher_yates.induct)
  case (1 i j draws x)
  then have j: "j < length x" and i: "Suc i < length x" by auto
  have "mset (fisher_yates i draws (x[Suc i := x ! j, j := x ! Suc i]))
          = mset (x[Suc i := x ! j, j := x ! Suc i])"
    using 1 by (intro "1.IH") auto
  also have "\<dots> = mset x" using mset_swap [OF j i] .
  finally show ?case by simp
qed simp_all

lemma fisher_yates_above:
  "valid_draws i draws \<Longrightarrow> i < p \<Longrightarrow> fisher_yates i draws x ! p = x ! p"
proof (induction i draws x rule: fisher_yates.induct)
  case (1 i j draws x)
  then have "fisher_yates i draws (x[Suc i := x ! j, j := x ! Suc i]) ! p
               = (x[Suc i := x ! j, j := x ! Suc i]) ! p"
    by (intro "1.IH") auto
  also have "\<dots> = x ! p" using 1 by simp
  finally show ?case by simp
qed simp_all

lemma swap_top: "Suc i < length x \<Longrightarrow> (x[Suc i := x ! j, j := x ! Suc i]) ! Suc i = x ! j"
  by (cases "j = Suc i") simp_all

lemma fisher_yates_inj:
  "distinct x \<Longrightarrow> i < length x \<Longrightarrow> valid_draws i ds \<Longrightarrow> valid_draws i ds' \<Longrightarrow>
   fisher_yates i ds x = fisher_yates i ds' x \<Longrightarrow> ds = ds'"
proof (induction i arbitrary: ds ds' x)
  case 0
  then show ?case by simp
next
  case (Suc i)
  from Suc.prems(3) obtain j r where ds: "ds = j # r" and j: "j \<le> Suc i" and r: "valid_draws i r"
    by (cases ds) auto
  from Suc.prems(4) obtain j' r' where ds': "ds' = j' # r'" and j': "j' \<le> Suc i"
      and r': "valid_draws i r'"
    by (cases ds') auto
  let ?x1 = "x[Suc i := x ! j, j := x ! Suc i]"
  let ?x1' = "x[Suc i := x ! j', j' := x ! Suc i]"
  have eq: "fisher_yates i r ?x1 = fisher_yates i r' ?x1'"
    using Suc.prems(5) by (simp add: ds ds')
  have "fisher_yates i r ?x1 ! Suc i = x ! j"
    using fisher_yates_above [OF r, of "Suc i" ?x1] swap_top [OF Suc.prems(2)] by simp
  moreover have "fisher_yates i r' ?x1' ! Suc i = x ! j'"
    using fisher_yates_above [OF r', of "Suc i" ?x1'] swap_top [OF Suc.prems(2)] by simp
  ultimately have "x ! j = x ! j'" using eq by simp
  then have jj: "j = j'"
    using Suc.prems(1,2) j j' by (simp add: nth_eq_iff_index_eq)
  have "distinct ?x1" using Suc.prems(1,2) j by simp
  moreover have "i < length ?x1" using Suc.prems(2) by simp
  ultimately have "r = r'"
    using Suc.IH [of ?x1 r r'] r r' eq jj by simp
  then show ?case by (simp add: ds ds' jj)
qed

lemma card_valid_draws: "finite {ds. valid_draws i ds} \<and> card {ds. valid_draws i ds} = fact (Suc i)"
proof (induction i)
  case 0
  have "{ds. valid_draws 0 ds} = {[]}" by auto
  then show ?case by simp
next
  case (Suc i)
  have set_eq: "{ds. valid_draws (Suc i) ds} =
          (\<lambda>(j, ds). j # ds) ` ({0..Suc i} \<times> {ds. valid_draws i ds})"
  proof (intro set_eqI iffI)
    fix ds assume "ds \<in> {ds. valid_draws (Suc i) ds}"
    then show "ds \<in> (\<lambda>(j, ds). j # ds) ` ({0..Suc i} \<times> {ds. valid_draws i ds})"
      by (cases ds) (auto simp: image_iff)
  next
    fix ds assume "ds \<in> (\<lambda>(j, ds). j # ds) ` ({0..Suc i} \<times> {ds. valid_draws i ds})"
    then show "ds \<in> {ds. valid_draws (Suc i) ds}" by auto
  qed
  have inj: "inj_on (\<lambda>(j, ds). j # ds) ({0..Suc i} \<times> {ds. valid_draws i ds})"
    by (rule inj_onI) auto
  have fin: "finite ({0..Suc i} \<times> {ds. valid_draws i ds})"
    using Suc by simp
  have "card {ds. valid_draws (Suc i) ds} = card ({0..Suc i} \<times> {ds. valid_draws i ds})"
    unfolding set_eq by (rule card_image [OF inj])
  also have "\<dots> = Suc (Suc i) * fact (Suc i)"
    using Suc by (simp add: card_cartesian_product)
  finally have "card {ds. valid_draws (Suc i) ds} = fact (Suc (Suc i))" by simp
  moreover have "finite {ds. valid_draws (Suc i) ds}"
    unfolding set_eq using fin by (rule finite_imageI)
  ultimately show ?case by simp
qed

lemma perms_as_distinct_lists:
  "{js. mset js = mset [0..<n]} = {xs. length xs = n \<and> distinct xs \<and> set xs \<subseteq> {0..<n}}"
proof (intro set_eqI iffI)
  fix js assume "js \<in> {js. mset js = mset [0..<n]}"
  then have m: "mset js = mset [0..<n]" by simp
  have "length js = n" using mset_eq_length [OF m] by simp
  moreover have "distinct js" using mset_eq_imp_distinct_iff [OF m] by simp
  moreover have "set js = {0..<n}" using mset_eq_setD [OF m] by simp
  ultimately show "js \<in> {xs. length xs = n \<and> distinct xs \<and> set xs \<subseteq> {0..<n}}" by simp
next
  fix js assume "js \<in> {xs. length xs = n \<and> distinct xs \<and> set xs \<subseteq> {0..<n}}"
  then have l: "length js = n" and d: "distinct js" and s: "set js \<subseteq> {0..<n}" by auto
  have "card (set js) = n" using distinct_card [OF d] l by simp
  then have "set js = {0..<n}" using s by (intro card_subset_eq) auto
  then have "mset js = mset [0..<n]"
    using d set_eq_iff_mset_eq_distinct [of js "[0..<n]"] by simp
  then show "js \<in> {js. mset js = mset [0..<n]}" by simp
qed

lemma card_perms: "finite {js. mset js = mset [0..<n]} \<and> card {js. mset js = mset [0..<n]} = fact n"
proof -
  have "card {xs. length xs = n \<and> distinct xs \<and> set xs \<subseteq> {0..<n}} = \<Prod>{card {0..<n} - n + 1 .. card {0..<n}}"
    by (rule card_lists_distinct_length_eq) simp_all
  then have "card {xs. length xs = n \<and> distinct xs \<and> set xs \<subseteq> {0..<n}} = fact n"
    by (simp add: fact_prod)
  moreover have "finite {xs. length xs = n \<and> distinct xs \<and> set xs \<subseteq> {0..<n}}"
    by (rule finite_subset [OF _ finite_lists_length_eq [of "{0..<n}" n]]) auto
  ultimately show ?thesis by (simp only: perms_as_distinct_lists)
qed

lemma random_shuffle_bij:
  "bij_betw (\<lambda>draws. random_shuffle draws [0..<n]) {draws. valid_draws (n - 1) draws}
     {js. mset js = mset [0..<n]}"
proof -
  let ?f = "\<lambda>draws. random_shuffle draws [0..<n]"
  let ?D = "{draws. valid_draws (n - 1) draws}"
  let ?P = "{js. mset js = mset [0..<n]}"
  have inj: "inj_on ?f ?D"
  proof (rule inj_onI)
    fix ds ds' assume a: "ds \<in> ?D" "ds' \<in> ?D" "?f ds = ?f ds'"
    show "ds = ds'"
    proof (cases "n = 0")
      case True
      then show ?thesis using a by simp
    next
      case False
      then have "n - 1 < length [0..<n]" by simp
      then show ?thesis
        using fisher_yates_inj [of "[0..<n]" "n - 1" ds ds'] a
        by (simp add: random_shuffle_def)
    qed
  qed
  have sub: "?f ` ?D \<subseteq> ?P"
  proof
    fix js assume "js \<in> ?f ` ?D"
    then obtain ds where ds: "valid_draws (n - 1) ds" and js: "js = ?f ds" by auto
    have "mset (fisher_yates (n - 1) ds [0..<n]) = mset [0..<n]"
      using ds by (intro fisher_yates_mset) auto
    then show "js \<in> ?P" by (simp add: js random_shuffle_def)
  qed
  have "card (?f ` ?D) = card ?D" using inj by (rule card_image)
  also have "\<dots> = fact (Suc (n - 1))" using card_valid_draws [of "n - 1"] by simp
  also have "\<dots> = fact n" by (cases n) simp_all
  also have "\<dots> = card ?P" using card_perms [of n] by simp
  finally have "card (?f ` ?D) = card ?P" .
  then have "?f ` ?D = ?P"
    using sub card_perms [of n] by (intro card_subset_eq) auto
  then show ?thesis using inj by (simp add: bij_betw_def)
qed

section \<open>The loop of the serialization and the repr of plain strings\<close>

text \<open>
  The loop deletes, of the keys it was given, those that are not to be persisted.
  The keys must be keys of the dictionary, each listed once, as \<^verbatim>\<open>list(d.keys())\<close> is.
\<close>

lemma drop_resources_filter:
  "distinct ks \<Longrightarrow> set ks \<subseteq> fst ` set d \<Longrightarrow>
   drop_resources ks d =
     (Inr (), filter (\<lambda>kv. fst kv \<notin> set ks \<or> fst kv \<in> set resources_to_persist) d)"
proof (induction ks arbitrary: d)
  case Nil
  then show ?case by simp
next
  case (Cons key keys)
  show ?case
  proof (cases "key \<in> set resources_to_persist")
    case True
    have "drop_resources (key # keys) d = drop_resources keys d"
      using True by simp
    also have "\<dots> = (Inr (), filter (\<lambda>kv. fst kv \<notin> set keys \<or> fst kv \<in> set resources_to_persist) d)"
      using Cons by simp
    also have "filter (\<lambda>kv. fst kv \<notin> set keys \<or> fst kv \<in> set resources_to_persist) d
             = filter (\<lambda>kv. fst kv \<notin> set (key # keys) \<or> fst kv \<in> set resources_to_persist) d"
      using True by (intro filter_cong) auto
    finally show ?thesis .
  next
    case False
    let ?d' = "filter (\<lambda>kv. fst kv \<noteq> key) d"
    have del: "dict_del key d = Inr ?d'"
      using Cons.prems by (auto simp: dict_del_def)
    have sub: "set keys \<subseteq> fst ` set ?d'"
    proof
      fix x assume x: "x \<in> set keys"
      then have "x \<noteq> key" using Cons.prems(1) by auto
      moreover from x Cons.prems(2) obtain kv where "kv \<in> set d" "fst kv = x" by auto
      ultimately show "x \<in> fst ` set ?d'" by force
    qed
    have "drop_resources (key # keys) d = drop_resources keys ?d'"
      using False del by simp
    also have "\<dots> = (Inr (), filter (\<lambda>kv. fst kv \<notin> set keys \<or> fst kv \<in> set resources_to_persist) ?d')"
      using Cons.IH [of ?d'] Cons.prems sub by simp
    also have "filter (\<lambda>kv. fst kv \<notin> set keys \<or> fst kv \<in> set resources_to_persist) ?d'
             = filter (\<lambda>kv. fst kv \<notin> set (key # keys) \<or> fst kv \<in> set resources_to_persist) d"
      using False by (auto simp: filter_filter intro!: filter_cong)
    finally show ?thesis .
  qed
qed

lemma drop_resources_all:
  assumes "distinct (map fst d)"
  shows "drop_resources (map fst d) d = (Inr (), filter (\<lambda>kv. fst kv = ''sys_types'') d)"
proof -
  have "drop_resources (map fst d) d =
          (Inr (), filter (\<lambda>kv. fst kv \<notin> set (map fst d) \<or> fst kv \<in> set resources_to_persist) d)"
    using assms by (intro drop_resources_filter) auto
  also have "filter (\<lambda>kv. fst kv \<notin> set (map fst d) \<or> fst kv \<in> set resources_to_persist) d
           = filter (\<lambda>kv. fst kv = ''sys_types'') d"
    by (intro filter_cong) (auto simp: resources_to_persist_def)
  finally show ?thesis .
qed

lemma getstate_run:
  assumes "distinct (map fst (heap w (resources self)))"
  shows "getstate (self, w) =
           (Inr self, self,
            w\<lparr>heap := (heap w)(resources self :=
                 filter (\<lambda>kv. fst kv = ''sys_types'') (heap w (resources self)))\<rparr>)"
  using drop_resources_all [OF assms] by (simp add: getstate_def Let_def)



section \<open>The degenerate model\<close>

text \<open>
  C1. On an instance whose \<^verbatim>\<open>_no_entities\<close> flag is set, \<^verbatim>\<open>predict\<close> returns the
  one-element list \<^verbatim>\<open>[()]\<close> for every list of examples, of any length, and leaves the
  instance and the world as they were; \<^verbatim>\<open>evaluate\<close> returns \<^verbatim>\<open>None\<close>, having done
  nothing but log its warning.
\<close>

theorem degenerate_short_circuit:
  assumes "no_entities self"
  shows "predict col examples (self, w) = (Inr [[]], self, w) \<and>
         evaluate col examples labels (self, w) =
           (Inr None, self, w\<lparr>events := events w @ [Warning NO_LABELS_EVALUATE]\<rparr>)"
  using assms by (simp add: predict_def evaluate_def and_then_def run_simps)

theorem degenerate_short_circuit_witness:
  "no_entities (fst degenerate_state) \<and>
   fst (predict stub_collab [''a'', ''b'', ''c''] degenerate_state) = Inr [[]] \<and>
   fst (predict stub_collab [] degenerate_state) = Inr [[]] \<and>
   fst (evaluate stub_collab [''a'', ''b'', ''c''] [[entity_X], [], []] degenerate_state) = Inr None"
proof -
  have f: "no_entities (fst degenerate_state)"
    by (simp add: degenerate_state_eq)
  show ?thesis
    using f degenerate_short_circuit [OF f, of stub_collab _ "snd degenerate_state"]
    by simp
qed

text \<open>
  C2 (the code departs from the claim). The only assignment to \<^verbatim>\<open>_no_entities\<close> in
  \<^verbatim>\<open>fit\<close> sets it to true, on the branch without entity types; the branch that
  trains a classifier never sets it back to false. So on an instance whose flag is
  set, every later \<^verbatim>\<open>fit\<close>, whatever its inputs and whether it raises or trains a
  classifier, leaves the flag set, and \<^verbatim>\<open>predict\<close> on the resulting instance still
  returns \<^verbatim>\<open>[()]\<close> without changing anything, that is, without calling the classifier.
  The claim says that a second \<^verbatim>\<open>fit\<close> on labels with an entity type overwrites the
  degenerate state and that \<^verbatim>\<open>predict\<close> then takes the classifier path.
\<close>

theorem refit_stays_degenerate:
  assumes "no_entities self"
  shows "no_entities (fst (snd (fit col indices examples labels given_params (self, w)))) \<and>
         predict col queries (snd (fit col indices examples labels given_params (self, w))) =
           (Inr [[]], snd (fit col indices examples labels given_params (self, w)))"
proof -
  have "no_entities (fst (snd (fit col indices examples labels given_params (self, w))))"
    using fit_keeps_flag [of "(self, w)"] assms by simp
  then show ?thesis by (simp add: predict_def return_def)
qed

text \<open>
  A run: a first \<^verbatim>\<open>fit\<close> on one query without entities, then a second \<^verbatim>\<open>fit\<close> on one
  query labelled with an entity of type \<^verbatim>\<open>X\<close>. The second call returns normally, has
  trained a classifier and stored the parameters it used, and \<^verbatim>\<open>predict\<close> still
  returns \<^verbatim>\<open>[()]\<close>.
\<close>

theorem refit_stays_degenerate_witness:
  "no_entities (fst degenerate_state) \<and>
   fst (fit stub_collab [0] [''hello''] [[entity_X]] None degenerate_state) = Inr () \<and>
   clf (fst (snd (fit stub_collab [0] [''hello''] [[entity_X]] None degenerate_state)))
     = Some MemmModel \<and>
   current_params (fst (snd (fit stub_collab [0] [''hello''] [[entity_X]] None degenerate_state)))
     = Some [(''C'', PyInt 5)] \<and>
   no_entities (fst (snd (fit stub_collab [0] [''hello''] [[entity_X]] None degenerate_state))) \<and>
   fst (predict stub_collab [''hello'']
          (snd (fit stub_collab [0] [''hello''] [[entity_X]] None degenerate_state))) = Inr [[]]"
proof -
  let ?R = "fit stub_collab [0] [''hello''] [[entity_X]] None degenerate_state"
  have flag: "no_entities (fst degenerate_state)"
    by (simp add: degenerate_state_eq)
  have ok: "fst ?R = Inr ()" and trained: "clf (fst (snd ?R)) = Some MemmModel"
    and used: "current_params (fst (snd ?R)) = Some [(''C'', PyInt 5)]"
    unfolding degenerate_state_eq
    by (simp_all add: fit_run_simps memm_config_def)
  have both: "no_entities (fst (snd ?R)) \<and>
         predict stub_collab [''hello''] (snd ?R) = (Inr [[]], snd ?R)"
    using refit_stays_degenerate [OF flag, where col = stub_collab and indices = "[0]"
        and examples = "[''hello'']" and labels = "[[entity_X]]" and given_params = None
        and w = "snd degenerate_state" and queries = "[''hello'']"]
    by simp
  then have stays: "no_entities (fst (snd ?R))"
    and short: "fst (predict stub_collab [''hello''] (snd ?R)) = Inr [[]]"
    by simp_all
  show ?thesis by (intro conjI flag ok trained used stays short)
qed

section \<open>Unknown classifier types\<close>



section \<open>Outcomes of fit\<close>

text \<open>
  C4 (amended). When no label holds an entity and there are at least as many examples
  as labels, \<^verbatim>\<open>fit\<close> returns normally with \<^verbatim>\<open>_no_entities\<close> set and \<^verbatim>\<open>types\<close> empty;
  the warning is the only event, so no classifier and no label encoder is
  constructed, and \<^verbatim>\<open>_clf\<close>, \<^verbatim>\<open>_label_encoder\<close> and \<^verbatim>\<open>_current_params\<close> are as
  before. \<open>indices\<close> is any outcome of the shuffle.
\<close>

theorem fit_without_entities:
  assumes "(\<Union>l\<in>set labels. (\<lambda>qe. entity_type (entity qe)) ` set l) = {}"
    and "mset indices = mset [0..<length labels]"
    and "length labels \<le> length examples"
  shows "fit col indices examples labels given_params (self, w) =
           (Inr (), self\<lparr>types := Some [], no_entities := True\<rparr>,
            w\<lparr>events := events w @ [Warning NO_LABELS_FIT]\<rparr>)"
proof -
  have ex: "reorder examples indices = Inr (map ((!) examples) indices)"
    using perm_indices_bound [OF assms(2)] assms(3) by (intro reorder_Inr) fastforce
  have lb: "reorder labels indices = Inr (map ((!) labels) indices)"
    using perm_indices_bound [OF assms(2)] by (intro reorder_Inr) auto
  have "entity_types (map ((!) labels) indices) = []"
    using entity_types_perm [OF perm_map_nth [OF assms(2)]] assms(1)
    by (simp add: entity_types_empty_iff)
  then show ?thesis by (simp add: fit_cases ex lb)
qed

text \<open>
  The claim as stated, for every input, fails when there are fewer examples than
  labels: with no example and one label that holds no entity, the reordering of the
  examples raises \<^verbatim>\<open>IndexError\<close> before the entity types are looked at; the flag is
  not set and nothing is logged.
\<close>

theorem fit_without_entities_counterexample:
  "(\<Union>l\<in>set [[] :: label]. (\<lambda>qe. entity_type (entity qe)) ` set l) = {} \<and>
   fit stub_collab [0] [] [[]] None (fresh_state memm_config)
     = (Inl IndexError, fresh_state memm_config) \<and>
   no_entities (fst (fresh_state memm_config)) = False \<and>
   events (snd (fresh_state memm_config)) = []"
  unfolding fresh_state_memm
  by (simp add: fit_cases py_index_def)

theorem fit_without_entities_witness:
  "(\<Union>l\<in>set [[], [] :: label]. (\<lambda>qe. entity_type (entity qe)) ` set l) = {} \<and>
   mset [1, 0] = mset [0..<length [[], [] :: label]] \<and>
   fst (fit stub_collab [1, 0] [''hi'', ''bye''] [[], []] None (fresh_state unknown_config)) = Inr () \<and>
   no_entities (fst (snd (fit stub_collab [1, 0] [''hi'', ''bye''] [[], []] None
                      (fresh_state unknown_config)))) \<and>
   clf (fst (snd (fit stub_collab [1, 0] [''hi'', ''bye''] [[], []] None
                      (fresh_state unknown_config)))) = None \<and>
   events (snd (snd (fit stub_collab [1, 0] [''hi'', ''bye''] [[], []] None
                      (fresh_state unknown_config)))) = [Warning NO_LABELS_FIT]"
proof -
  have a: "(\<Union>l\<in>set [[], [] :: label]. (\<lambda>qe. entity_type (entity qe)) ` set l) = {}"
    by simp
  have b: "mset [1, 0] = mset [0..<length [[], [] :: label]]"
    by (simp add: upt_rec)
  have c: "length [[], [] :: label] \<le> length [''hi'', ''bye'']"
    by simp
  show ?thesis
    using a b fit_without_entities [OF a b c, of stub_collab None
        "fst (fresh_state unknown_config)" "snd (fresh_state unknown_config)"]
    by (simp add: fresh_state_unknown)
qed

text \<open>
  C5 (amended). Take a call of \<^verbatim>\<open>fit\<close> on labels with at least one entity type that
  returns normally. The parameter search ran (\<^verbatim>\<open>_fit_cv\<close> is among the calls this
  \<^verbatim>\<open>fit\<close> made) exactly when \<^verbatim>\<open>params\<close> was not given and the configuration has a
  \<^verbatim>\<open>param_selection\<close>. Afterwards \<^verbatim>\<open>_current_params\<close> is: the given \<^verbatim>\<open>params\<close> when
  they are a non-empty dictionary; the configuration's \<^verbatim>\<open>params\<close> when the search was
  skipped and the given \<^verbatim>\<open>params\<close> are \<^verbatim>\<open>None\<close> or empty (\<^verbatim>\<open>params or self.config.params\<close>);
  and, when the search ran, the best parameters that \<^verbatim>\<open>_fit_cv\<close> returned for this
  call: the call on the instance as it stands after feature extraction, with the
  features, targets and groups that the classifier of this \<^verbatim>\<open>fit\<close> extracted from the
  reordered examples and their encoded labels. In every case \<^verbatim>\<open>_current_params\<close> is a
  dictionary that this \<^verbatim>\<open>fit\<close> passed to \<^verbatim>\<open>set_params\<close>. The instance returned is the
  one \<^verbatim>\<open>fit\<close> was called on: same configuration, same resources.
\<close>

theorem fit_current_params:
  assumes run: "fit col indices examples labels given_params (self, w) = (Inr (), self', w')"
    and perm: "mset indices = mset [0..<length labels]"
    and present: "(\<Union>l\<in>set labels. (\<lambda>qe. entity_type (entity qe)) ` set l) \<noteq> {}"
  shows "(Call_fit_cv \<notin> set (new_events w w') \<longleftrightarrow>
            given_params \<noteq> None \<or> param_selection (config self) = None) \<and>
         (if py_truthy given_params then current_params self' = given_params
          else if given_params \<noteq> None \<or> param_selection (config self) = None
            then current_params self' = params (config self)
          else \<exists>kind c0 c1 enc y0 X y g c2 d' est.
                 get_model_constructor self = Inr kind \<and> constructor col kind = Inr c0 \<and>
                 setup_model col c0 (config self) = Inr c1 \<and>
                 get_label_encoder col (config self) = Inr enc \<and>
                 encode col enc (map ((!) labels) indices) (map ((!) examples) indices) = Inr y0 \<and>
                 extract_features col c1 (map ((!) examples) indices) (config self)
                     (heap w (resources self)) y0 = Inr ((X, y, g), c2, d') \<and>
                 fit_cv col
                     (self\<lparr>types := Some (entity_types (map ((!) labels) indices)),
                           label_encoder := Some enc, clf := Some c2\<rparr>) X y g
                   = Inr (est, current_params self')) \<and>
         (\<exists>kwargs. current_params self' = Some kwargs \<and>
                    Call_set_params kwargs \<in> set (new_events w w')) \<and>
         config self' = config self \<and> resources self' = resources self"
proof -
  let ?skip = "given_params \<noteq> None \<or> param_selection (config self) = None"
  let ?p = "py_or given_params (params (config self))"
  let ?ex = "map ((!) examples) indices"
  let ?lb = "map ((!) labels) indices"
  let ?self1 = "self\<lparr>types := Some (entity_types ?lb)\<rparr>"
  obtain ex' where ex': "reorder examples indices = Inr ex'"
    using run by (cases "reorder examples indices") (simp_all add: fit_cases)
  have ex: "reorder examples indices = Inr ?ex"
    using ex' reorder_eq_Inr [OF ex'] by simp
  have lb: "reorder labels indices = Inr ?lb"
    using perm_indices_bound [OF perm] by (intro reorder_Inr) auto
  have ne: "entity_types ?lb \<noteq> []"
    using entity_types_perm [OF perm_map_nth [OF perm]] present
    by (simp add: entity_types_empty_iff)
  have ent: "fit_entities col ?skip ?p ?ex ?lb (?self1, w) = (Inr (), self', w')"
    using run ex lb ne by (simp add: fit_cases)
  have frame: "fit_frame ?ex ?lb (?self1, w) (self', w')"
    using fit_entities_frame [of ?ex ?lb "(?self1, w)" col ?skip ?p] ent by simp
  have sel: "get_model_constructor ?self1 = get_model_constructor self"
    by (simp add: get_model_constructor_def)
  have succ: "(if ?skip then current_params self' = ?p \<and> Call_fit_cv \<notin> set (new_events w w')
               else Call_fit_cv \<in> set (new_events w w') \<and>
                 (\<exists>kind c0 c1 enc y0 X y g c2 d' est.
                 get_model_constructor self = Inr kind \<and> constructor col kind = Inr c0 \<and>
                 setup_model col c0 (config self) = Inr c1 \<and>
                 get_label_encoder col (config self) = Inr enc \<and>
                 encode col enc ?lb ?ex = Inr y0 \<and>
                 extract_features col c1 ?ex (config self) (heap w (resources self)) y0
                   = Inr ((X, y, g), c2, d') \<and>
                 fit_cv col
                     (self\<lparr>types := Some (entity_types ?lb),
                           label_encoder := Some enc, clf := Some c2\<rparr>) X y g
                   = Inr (est, current_params self'))) \<and>
         (\<exists>kwargs. current_params self' = Some kwargs \<and>
                    Call_set_params kwargs \<in> set (new_events w w'))"
    using fit_entities_success [OF ent] by (simp add: sel cong: if_cong)
  have truthy: "py_truthy given_params \<Longrightarrow> ?skip \<and> ?p = given_params"
    by (cases given_params) (simp_all add: py_or_def)
  have falsy: "\<not> py_truthy given_params \<Longrightarrow> ?p = params (config self)"
    by (simp add: py_or_def)
  have a: "Call_fit_cv \<notin> set (new_events w w') \<longleftrightarrow> ?skip"
    using succ by (auto split: if_splits)
  have b: "if py_truthy given_params then current_params self' = given_params
          else if ?skip then current_params self' = params (config self)
          else \<exists>kind c0 c1 enc y0 X y g c2 d' est.
                 get_model_constructor self = Inr kind \<and> constructor col kind = Inr c0 \<and>
                 setup_model col c0 (config self) = Inr c1 \<and>
                 get_label_encoder col (config self) = Inr enc \<and>
                 encode col enc ?lb ?ex = Inr y0 \<and>
                 extract_features col c1 ?ex (config self) (heap w (resources self)) y0
                   = Inr ((X, y, g), c2, d') \<and>
                 fit_cv col
                     (self\<lparr>types := Some (entity_types ?lb),
                           label_encoder := Some enc, clf := Some c2\<rparr>) X y g
                   = Inr (est, current_params self')"
  proof (cases ?skip)
    case True
    then have "current_params self' = ?p" using succ by (auto split: if_splits)
    then show ?thesis using True truthy falsy by (cases "py_truthy given_params") simp_all
  next
    case False
    then have nt: "\<not> py_truthy given_params" using truthy by auto
    from False succ have "\<exists>kind c0 c1 enc y0 X y g c2 d' est.
                 get_model_constructor self = Inr kind \<and> constructor col kind = Inr c0 \<and>
                 setup_model col c0 (config self) = Inr c1 \<and>
                 get_label_encoder col (config self) = Inr enc \<and>
                 encode col enc ?lb ?ex = Inr y0 \<and>
                 extract_features col c1 ?ex (config self) (heap w (resources self)) y0
                   = Inr ((X, y, g), c2, d') \<and>
                 fit_cv col
                     (self\<lparr>types := Some (entity_types ?lb),
                           label_encoder := Some enc, clf := Some c2\<rparr>) X y g
                   = Inr (est, current_params self')"
      by (auto split: if_splits)
    then show ?thesis using False nt by auto
  qed
  have c: "\<exists>kwargs. current_params self' = Some kwargs \<and>
                    Call_set_params kwargs \<in> set (new_events w w')"
    using succ by blast
  have c1: "config self' = config self" and c2: "resources self' = resources self"
    using frame by (simp_all add: fit_frame_def)
  show ?thesis by (intro conjI a b c c1 c2)
qed

text \<open>
  The claim as stated fails for explicit but empty parameters: \<^verbatim>\<open>fit(..., params={})\<close>
  on a configuration whose \<^verbatim>\<open>params\<close> are \<^verbatim>\<open>{'C': 5}\<close> returns normally and leaves
  \<^verbatim>\<open>_current_params\<close> equal to \<^verbatim>\<open>{'C': 5}\<close>, not to the \<^verbatim>\<open>{}\<close> passed in.
\<close>

theorem fit_current_params_counterexample:
  "fst (fit stub_collab [0] [''hello''] [[entity_X]] (Some []) (fresh_state memm_config)) = Inr () \<and>
   current_params
     (fst (snd (fit stub_collab [0] [''hello''] [[entity_X]] (Some []) (fresh_state memm_config))))
     = Some [(''C'', PyInt 5)] \<and>
   current_params
     (fst (snd (fit stub_collab [0] [''hello''] [[entity_X]] (Some []) (fresh_state memm_config))))
     \<noteq> Some []"
  unfolding fresh_state_memm
  by (simp add: fit_run_simps memm_config_def)

theorem fit_current_params_witness:
  "mset [0] = mset [0..<length [[entity_X]]] \<and>
   fst (fit stub_collab [0] [''hello''] [[entity_X]] None (fresh_state search_config)) = Inr () \<and>
   Call_fit_cv \<in> set (new_events (snd (fresh_state search_config))
       (snd (snd (fit stub_collab [0] [''hello''] [[entity_X]] None (fresh_state search_config))))) \<and>
   current_params
     (fst (snd (fit stub_collab [0] [''hello''] [[entity_X]] None (fresh_state search_config))))
     = Some [(''C'', PyInt 1)] \<and>
   current_params
     (fst (snd (fit stub_collab [0] [''hello''] [[entity_X]] (Some [(''C'', PyInt 9)])
                  (fresh_state search_config))))
     = Some [(''C'', PyInt 9)]"
proof -
  let ?R = "fit stub_collab [0] [''hello''] [[entity_X]] None (fresh_state search_config)"
  let ?Q = "fit stub_collab [0] [''hello''] [[entity_X]] (Some [(''C'', PyInt 9)])
              (fresh_state search_config)"
  have perm: "mset [0] = mset [0..<length [[entity_X]]]"
    by simp
  have present: "(\<Union>l\<in>set [[entity_X]]. (\<lambda>qe. entity_type (entity qe)) ` set l) \<noteq> {}"
    by simp
  have ok: "fst ?R = Inr ()" and best: "current_params (fst (snd ?R)) = Some [(''C'', PyInt 1)]"
    unfolding fresh_state_search
    by (simp_all add: fit_run_simps search_config_def memm_config_def)
  have okq: "fst ?Q = Inr ()"
    unfolding fresh_state_search
    by (simp add: fit_run_simps search_config_def memm_config_def)
  have run: "fit stub_collab [0] [''hello''] [[entity_X]] None
               (fst (fresh_state search_config), snd (fresh_state search_config))
             = (Inr (), fst (snd ?R), snd (snd ?R))"
    using ok by (metis prod.collapse)
  have runq: "fit stub_collab [0] [''hello''] [[entity_X]] (Some [(''C'', PyInt 9)])
               (fst (fresh_state search_config), snd (fresh_state search_config))
             = (Inr (), fst (snd ?Q), snd (snd ?Q))"
    using okq by (metis prod.collapse)
  have sel: "param_selection (config (fst (fresh_state search_config))) \<noteq> None"
    unfolding fresh_state_search by (simp add: search_config_def)
  have searched: "Call_fit_cv \<in> set (new_events (snd (fresh_state search_config)) (snd (snd ?R)))"
    using fit_current_params [OF run perm present] sel by simp
  have given: "current_params (fst (snd ?Q)) = Some [(''C'', PyInt 9)]"
    using fit_current_params [OF runq perm present] by simp
  show ?thesis by (intro conjI perm ok searched best given)
qed

text \<open>
  C6. For lists of equal length and every permutation \<open>indices\<close> of
  \<open>[0..<length labels]\<close>, both comprehensions succeed and apply the same \<open>indices\<close> to
  the examples and to the labels; the pairs of the reordered lists are, as a
  multiset, the pairs of the input; every call of the label encoder and of the
  feature extractor that this \<^verbatim>\<open>fit\<close> makes receives exactly the reordered lists. These
  calls are made: when an entity type is present and the classifier and the label
  encoder have been set up, \<^verbatim>\<open>fit\<close> is what follows from encoding the reordered labels
  with the reordered examples and from extracting features from the reordered
  examples and the encoded targets, namely the error of either call, propagated as
  it is, or the training on what the extractor returned, with both calls recorded.
  The permutations are exactly the outcomes of the shuffle, and each arises from
  exactly one sequence of draws; draws that are independent and uniform on their
  ranges, as \<^verbatim>\<open>randbelow\<close> provides them, therefore give every permutation the same
  probability. The distribution of the draws is the generator's and is not modelled.
\<close>

theorem fit_shuffles_jointly:
  assumes "length examples = length labels"
    and "mset indices = mset [0..<length labels]"
  shows "(\<exists>ex' lb'.
           reorder examples indices = Inr ex' \<and> reorder labels indices = Inr lb' \<and>
           ex' = map ((!) examples) indices \<and> lb' = map ((!) labels) indices \<and>
           length ex' = length lb' \<and>
           mset (zip ex' lb') = mset (zip examples labels) \<and>
           (\<forall>ev\<in>set (new_events w (snd (snd (fit col indices examples labels given_params (self, w))))).
              (\<forall>lb ex. ev = Call_encode lb ex \<longrightarrow> lb = lb' \<and> ex = ex') \<and>
              (\<forall>ex. ev = Call_extract_features ex \<longrightarrow> ex = ex')) \<and>
           (entity_types lb' \<noteq> [] \<longrightarrow>
              (\<forall>kind c0 c1 enc.
                 get_model_constructor self = Inr kind \<and> constructor col kind = Inr c0 \<and>
                 setup_model col c0 (config self) = Inr c1 \<and>
                 get_label_encoder col (config self) = Inr enc \<longrightarrow>
                 fit col indices examples labels given_params (self, w) =
                   (case encode col enc lb' ex' of
                      Inl e \<Rightarrow>
                        (Inl e,
                         self\<lparr>types := Some (entity_types lb'), clf := Some c1,
                              label_encoder := Some enc\<rparr>,
                         w\<lparr>events := events w @ [Call_constructor kind, Call_setup_model,
                                 Call_get_label_encoder, Call_encode lb' ex']\<rparr>)
                    | Inr y0 \<Rightarrow>
                        (case extract_features col c1 ex' (config self)
                                (heap w (resources self)) y0 of
                           Inl e \<Rightarrow>
                             (Inl e,
                              self\<lparr>types := Some (entity_types lb'), clf := Some c1,
                                   label_encoder := Some enc\<rparr>,
                              w\<lparr>events := events w @ [Call_constructor kind, Call_setup_model,
                                      Call_get_label_encoder, Call_encode lb' ex',
                                      Call_extract_features ex']\<rparr>)
                         | Inr (Xyg, c2, d') \<Rightarrow>
                             train col
                               (given_params \<noteq> None \<or> param_selection (config self) = None)
                               (py_or given_params (params (config self))) Xyg
                               (self\<lparr>types := Some (entity_types lb'),
                                     label_encoder := Some enc, clf := Some c2\<rparr>,
                                w\<lparr>events := events w @ [Call_constructor kind, Call_setup_model,
                                        Call_get_label_encoder, Call_encode lb' ex',
                                        Call_extract_features ex'],
                                  heap := (heap w)(resources self := d')\<rparr>)))))) \<and>
         bij_betw (\<lambda>draws. random_shuffle draws [0..<length labels])
           {draws. valid_draws (length labels - 1) draws}
           {js. mset js = mset [0..<length labels]}"
proof -
  let ?ex = "map ((!) examples) indices"
  let ?lb = "map ((!) labels) indices"
  let ?self1 = "self\<lparr>types := Some (entity_types ?lb)\<rparr>"
  let ?skip = "given_params \<noteq> None \<or> param_selection (config self) = None"
  let ?p = "py_or given_params (params (config self))"
  have ex: "reorder examples indices = Inr ?ex"
    using perm_indices_bound [OF assms(2)] assms(1) by (intro reorder_Inr) fastforce
  have lb: "reorder labels indices = Inr ?lb"
    using perm_indices_bound [OF assms(2)] by (intro reorder_Inr) auto
  have pairs: "mset (zip ?ex ?lb) = mset (zip examples labels)"
    using perm_zip_nth [OF assms(2), of examples] assms(1) by simp
  have sel: "get_model_constructor ?self1 = get_model_constructor self"
    by (simp add: get_model_constructor_def)
  have live: "entity_types ?lb \<noteq> [] \<longrightarrow>
              (\<forall>kind c0 c1 enc.
                 get_model_constructor self = Inr kind \<and> constructor col kind = Inr c0 \<and>
                 setup_model col c0 (config self) = Inr c1 \<and>
                 get_label_encoder col (config self) = Inr enc \<longrightarrow>
                 fit col indices examples labels given_params (self, w) =
                   (case encode col enc ?lb ?ex of
                      Inl e \<Rightarrow>
                        (Inl e,
                         self\<lparr>types := Some (entity_types ?lb), clf := Some c1,
                              label_encoder := Some enc\<rparr>,
                         w\<lparr>events := events w @ [Call_constructor kind, Call_setup_model,
                                 Call_get_label_encoder, Call_encode ?lb ?ex]\<rparr>)
                    | Inr y0 \<Rightarrow>
                        (case extract_features col c1 ?ex (config self)
                                (heap w (resources self)) y0 of
                           Inl e \<Rightarrow>
                             (Inl e,
                              self\<lparr>types := Some (entity_types ?lb), clf := Some c1,
                                   label_encoder := Some enc\<rparr>,
                              w\<lparr>events := events w @ [Call_constructor kind, Call_setup_model,
                                      Call_get_label_encoder, Call_encode ?lb ?ex,
                                      Call_extract_features ?ex]\<rparr>)
                         | Inr (Xyg, c2, d') \<Rightarrow>
                             train col ?skip ?p Xyg
                               (self\<lparr>types := Some (entity_types ?lb),
                                     label_encoder := Some enc, clf := Some c2\<rparr>,
                                w\<lparr>events := events w @ [Call_constructor kind, Call_setup_model,
                                        Call_get_label_encoder, Call_encode ?lb ?ex,
                                        Call_extract_features ?ex],
                                  heap := (heap w)(resources self := d')\<rparr>))))"
  proof (intro impI allI)
    fix kind c0 c1 enc
    assume ne: "entity_types ?lb \<noteq> []"
      and pre: "get_model_constructor self = Inr kind \<and> constructor col kind = Inr c0 \<and>
                 setup_model col c0 (config self) = Inr c1 \<and>
                 get_label_encoder col (config self) = Inr enc"
    have run: "fit col indices examples labels given_params (self, w) =
                 fit_entities col ?skip ?p ?ex ?lb (?self1, w)"
      using ne ex lb by (simp add: fit_cases)
    have a: "get_model_constructor ?self1 = Inr kind" using pre sel by simp
    have b: "constructor col kind = Inr c0" using pre by simp
    have c: "setup_model col c0 (config ?self1) = Inr c1" using pre by simp
    have d: "get_label_encoder col (config ?self1) = Inr enc" using pre by simp
    show "fit col indices examples labels given_params (self, w) =
                   (case encode col enc ?lb ?ex of
                      Inl e \<Rightarrow>
                        (Inl e,
                         self\<lparr>types := Some (entity_types ?lb), clf := Some c1,
                              label_encoder := Some enc\<rparr>,
                         w\<lparr>events := events w @ [Call_constructor kind, Call_setup_model,
                                 Call_get_label_encoder, Call_encode ?lb ?ex]\<rparr>)
                    | Inr y0 \<Rightarrow>
                        (case extract_features col c1 ?ex (config self)
                                (heap w (resources self)) y0 of
                           Inl e \<Rightarrow>
                             (Inl e,
                              self\<lparr>types := Some (entity_types ?lb), clf := Some c1,
                                   label_encoder := Some enc\<rparr>,
                              w\<lparr>events := events w @ [Call_constructor kind, Call_setup_model,
                                      Call_get_label_encoder, Call_encode ?lb ?ex,
                                      Call_extract_features ?ex]\<rparr>)
                         | Inr (Xyg, c2, d') \<Rightarrow>
                             train col ?skip ?p Xyg
                               (self\<lparr>types := Some (entity_types ?lb),
                                     label_encoder := Some enc, clf := Some c2\<rparr>,
                                w\<lparr>events := events w @ [Call_constructor kind, Call_setup_model,
                                        Call_get_label_encoder, Call_encode ?lb ?ex,
                                        Call_extract_features ?ex],
                                  heap := (heap w)(resources self := d')\<rparr>)))"
      unfolding run fit_entities_prefix [OF a b c d]
      by (simp split: sum.splits prod.splits)
  qed
  have safe: "\<forall>ev\<in>set (new_events w (snd (snd (fit col indices examples labels given_params (self, w))))).
              (\<forall>lb ex. ev = Call_encode lb ex \<longrightarrow> lb = ?lb \<and> ex = ?ex) \<and>
              (\<forall>ex. ev = Call_extract_features ex \<longrightarrow> ex = ?ex)"
    by (rule fit_new_events [OF ex lb])
  have bij: "bij_betw (\<lambda>draws. random_shuffle draws [0..<length labels])
           {draws. valid_draws (length labels - 1) draws}
           {js. mset js = mset [0..<length labels]}"
    by (rule random_shuffle_bij)
  have len: "length ?ex = length ?lb" by simp
  show ?thesis
    by (intro exI [of _ ?ex] exI [of _ ?lb] conjI ex lb refl len pairs safe live bij)
qed


theorem fit_shuffles_jointly_witness:
  "length [''a'', ''b'', ''c''] = length [[entity_X], [], [entity_X, entity_X]] \<and>
   mset [2, 0, 1] = mset [0..<length [[entity_X], [], [entity_X, entity_X]]] \<and>
   valid_draws 2 [1, 0] \<and> random_shuffle [1, 0] [0..<3] = [2, 0, 1] \<and>
   reorder [''a'', ''b'', ''c''] [2, 0, 1] = Inr [''c'', ''a'', ''b''] \<and>
   reorder [[entity_X], [], [entity_X, entity_X]] [2, 0, 1] =
     Inr [[entity_X, entity_X], [entity_X], []] \<and>
   mset (zip [''c'', ''a'', ''b''] [[entity_X, entity_X], [entity_X], []]) =
     mset (zip [''a'', ''b'', ''c''] [[entity_X], [], [entity_X, entity_X]]) \<and>
   new_events (snd (fresh_state memm_config))
     (snd (snd (fit stub_collab [2, 0, 1] [''a'', ''b'', ''c'']
                  [[entity_X], [], [entity_X, entity_X]] None (fresh_state memm_config))))
     = [Call_constructor MemmModel, Call_setup_model, Call_get_label_encoder,
        Call_encode [[entity_X, entity_X], [entity_X], []] [''c'', ''a'', ''b''],
        Call_extract_features [''c'', ''a'', ''b''],
        Call_set_params [(''C'', PyInt 5)], Call_clf_fit]"
proof -
  have a: "length [''a'', ''b'', ''c''] = length [[entity_X], [], [entity_X, entity_X]]"
    by simp
  have b: "mset [2, 0, 1] = mset [0..<length [[entity_X], [], [entity_X, entity_X]]]"
    by (simp add: upt_rec)
  have v: "valid_draws 2 [1, 0]"
    by (simp add: numeral_2_eq_2)
  have sh: "random_shuffle [1, 0] [0..<3] = [2, 0, 1]"
    by (simp add: random_shuffle_def upt_rec numeral_2_eq_2)
  have c: "new_events (snd (fresh_state memm_config))
     (snd (snd (fit stub_collab [2, 0, 1] [''a'', ''b'', ''c'']
                  [[entity_X], [], [entity_X, entity_X]] None (fresh_state memm_config))))
     = [Call_constructor MemmModel, Call_setup_model, Call_get_label_encoder,
        Call_encode [[entity_X, entity_X], [entity_X], []] [''c'', ''a'', ''b''],
        Call_extract_features [''c'', ''a'', ''b''],
        Call_set_params [(''C'', PyInt 5)], Call_clf_fit]"
    unfolding fresh_state_memm
    by (simp add: fit_run_simps new_events_def memm_config_def)
  from fit_shuffles_jointly [OF a b, where col = stub_collab and given_params = None
        and self = "fst (fresh_state memm_config)" and w = "snd (fresh_state memm_config)"]
  obtain ex' lb' where
    r1: "reorder [''a'', ''b'', ''c''] [2, 0, 1] = Inr ex'" and
    r2: "reorder [[entity_X], [], [entity_X, entity_X]] [2, 0, 1] = Inr lb'" and
    e1: "ex' = map ((!) [''a'', ''b'', ''c'']) [2, 0, 1]" and
    e2: "lb' = map ((!) [[entity_X], [], [entity_X, entity_X]]) [2, 0, 1]" and
    m: "mset (zip ex' lb') = mset (zip [''a'', ''b'', ''c''] [[entity_X], [], [entity_X, entity_X]])"
    by blast
  have ex: "ex' = [''c'', ''a'', ''b'']" using e1 by simp
  have lb: "lb' = [[entity_X, entity_X], [entity_X], []]" using e2 by simp
  show ?thesis
    by (intro conjI a b v sh c r1 [unfolded ex] r2 [unfolded lb] m [unfolded ex lb])
qed

section \<open>Persisted state\<close>

text \<open>
  C7. \<^verbatim>\<open>__getstate__\<close> returns a state whose \<^verbatim>\<open>config\<close>, \<^verbatim>\<open>_clf\<close>,
  \<^verbatim>\<open>_label_encoder\<close>, \<^verbatim>\<open>_current_params\<close> and \<^verbatim>\<open>_no_entities\<close> (and \<^verbatim>\<open>types\<close>) are
  those of the instance, and whose \<^verbatim>\<open>_resources\<close> holds the entry of \<^verbatim>\<open>sys_types\<close>, if
  the cache had one, and no other entry. (A Python dictionary lists each key once.)
\<close>

theorem getstate_persisted_state:
  assumes "distinct (map fst (heap w (resources self)))"
  shows "\<exists>attributes w'.
           getstate (self, w) = (Inr attributes, self, w') \<and>
           config attributes = config self \<and> clf attributes = clf self \<and>
           label_encoder attributes = label_encoder self \<and>
           current_params attributes = current_params self \<and>
           no_entities attributes = no_entities self \<and>
           types attributes = types self \<and>
           resources attributes = resources self \<and>
           heap w' (resources attributes) =
             filter (\<lambda>kv. fst kv = ''sys_types'') (heap w (resources self)) \<and>
           fst ` set (heap w' (resources attributes)) \<subseteq> {''sys_types''}"
  using getstate_run [OF assms] by auto

theorem getstate_persisted_state_witness:
  "distinct (map fst (heap (snd cached_state) (resources (fst cached_state)))) \<and>
   fst (getstate cached_state) = Inr (fst cached_state) \<and>
   heap (snd (snd (getstate cached_state))) (resources (fst cached_state)) =
     [(''sys_types'', PyList [PyStr ''sys_time''])]"
proof -
  have d: "distinct (map fst (heap (snd cached_state) (resources (fst cached_state))))"
    by (simp add: cached_state_eq cached_resources_def)
  show ?thesis
    using d getstate_persisted_state [OF d]
    by (auto simp: cached_state_eq cached_resources_def intro: tagger.equality)
qed

section \<open>Inputs of different lengths\<close>




section \<open>Default features\<close>

text \<open>
  C9. Construction from a configuration without features (an empty mapping, or none)
  stores a derived configuration that differs from the given one in its features
  only, which are \<^verbatim>\<open>DEFAULT_FEATURES\<close> with its three extractors; a configuration with
  a non-empty feature mapping is stored unchanged; in both cases \<^verbatim>\<open>_no_entities\<close>
  starts as false.
\<close>

theorem init_default_features:
  fixes self :: "('c, 'e) tagger"
  assumes "self = fst (TaggerModel_init cfg w)"
  shows "config self =
     (if features cfg = None \<or> features cfg = Some []
      then cfg\<lparr>features := Some DEFAULT_FEATURES\<rparr> else cfg) \<and>
   no_entities self = False \<and>
   map fst DEFAULT_FEATURES = [''bag-of-words-seq'', ''in-gaz-span-seq'', ''sys-candidates-seq'']"
  using assms by (cases "features cfg")
     (simp_all add: TaggerModel_init_def Model_init_def DEFAULT_FEATURES_def)

theorem init_default_features_witness:
  "features (config (fst (fresh_state memm_config))) = Some DEFAULT_FEATURES \<and>
   config (fst (fresh_state (memm_config\<lparr>features := Some [(''in-gaz-span-seq'', PyDict [])]\<rparr>)))
     = memm_config\<lparr>features := Some [(''in-gaz-span-seq'', PyDict [])]\<rparr> \<and>
   no_entities (fst (fresh_state memm_config)) = False"
  using init_default_features [of "fst (fresh_state memm_config)" memm_config empty_world]
    init_default_features [of
      "fst (fresh_state (memm_config\<lparr>features := Some [(''in-gaz-span-seq'', PyDict [])]\<rparr>))"
      "memm_config\<lparr>features := Some [(''in-gaz-span-seq'', PyDict [])]\<rparr>" empty_world]
  by (simp add: fresh_state_def memm_config_def)

section \<open>The live instance after serialization\<close>

text \<open>
  C10. \<^verbatim>\<open>__getstate__\<close> changes the live instance: the returned state refers to the
  very dictionary the instance refers to, so after the call the instance is the same
  object with the same attributes, and its own \<^verbatim>\<open>_resources\<close> has lost every entry
  but that of \<^verbatim>\<open>sys_types\<close>.
\<close>

theorem getstate_mutates_instance:
  assumes "distinct (map fst (heap w (resources self)))"
  shows "fst (snd (getstate (self, w))) = self \<and>
         (\<exists>attributes. fst (getstate (self, w)) = Inr attributes \<and>
                        resources attributes = resources self) \<and>
         heap (snd (snd (getstate (self, w)))) (resources self) =
           filter (\<lambda>kv. fst kv = ''sys_types'') (heap w (resources self)) \<and>
         fst ` set (heap (snd (snd (getstate (self, w)))) (resources self)) \<subseteq> {''sys_types''}"
  using getstate_run [OF assms] by auto

theorem getstate_mutates_instance_witness:
  "distinct (map fst (heap (snd cached_state) (resources (fst cached_state)))) \<and>
   map fst (heap (snd cached_state) (resources (fst cached_state))) =
     [''gazetteers'', ''sys_types'', ''word_freqs''] \<and>
   fst (snd (getstate cached_state)) = fst cached_state \<and>
   map fst (heap (snd (snd (getstate cached_state))) (resources (fst (snd (getstate cached_state)))))
     = [''sys_types'']"
proof -
  have d: "distinct (map fst (heap (snd cached_state) (resources (fst cached_state))))"
    by (simp add: cached_state_eq cached_resources_def)
  show ?thesis
    using d getstate_mutates_instance [OF d]
    by (auto simp: cached_state_eq cached_resources_def)
qed

end
